theory Spec2Isabelle
  imports Main
begin

section \<open>Values, errors and the dataset record\<close>

text \<open>
  The adapter \<^verbatim>\<open>PolarsDataset\<close> of
  \<^verbatim>\<open>kedro_datasets/polars/polars_dataset.py\<close> glues three libraries together: the
  dataframe engine (polars), the filesystem layer (fsspec) and the framework's versioned
  dataset base class (kedro). The adapter's own code is embedded below function by function;
  every call into one of the libraries is a field of the record \<open>env\<close>, so that every
  theorem holds for whatever the libraries do.

  Option values (\<^verbatim>\<open>Any\<close>) are a small datatype, option dictionaries are maps from
  key to value, strings are \<open>string\<close>.
\<close>

datatype pyval = PNone | PBool bool | PInt int | PStr string | PList "pyval list"

type_synonym kwargs = "string \<rightharpoonup> pyval"

text \<open>
  Exceptions are values. \<open>DatasetError\<close> is the framework's error type, the only one the
  adapter raises itself and the only one \<^verbatim>\<open>_exists\<close> catches; \<open>LibraryError\<close> is any
  other exception raised inside a library call, which the adapter lets through.
\<close>

datatype error = DatasetError string | LibraryError string

text \<open>\<^verbatim>\<open>kedro.io.core.Version\<close>: a named tuple of two optional version strings.\<close>

datatype Version = Version (version_load: "string option") (version_save: "string option")

text \<open>\<^verbatim>\<open>Union[pl.DataFrame, pl.LazyFrame]\<close>, the argument of \<^verbatim>\<open>_save\<close>.\<close>

datatype ('df, 'lf) PolarsFrame = DataFrame 'df | LazyFrame 'lf

text \<open>
  The instance attributes set by \<^verbatim>\<open>__init__\<close> (the leading underscore of the Python
  names is dropped). \<open>filepath\<close>, \<open>version\<close> and \<open>version_cache\<close> are the attributes the
  base class constructor sets; \<open>version_cache\<close> is the base class's cache of resolved
  versions, filled by path resolution and cleared by release.
\<close>

record ('fs, 'vc) PolarsDataset =
  file_format :: string
  protocol :: string
  storage_options :: kwargs
  fs :: 'fs
  metadata :: "kwargs option"
  filepath :: string
  version :: "Version option"
  version_cache :: 'vc
  load_args :: kwargs
  save_args :: kwargs

text \<open>The parameters of \<^verbatim>\<open>__init__\<close>; \<open>None\<close> is Python's \<^verbatim>\<open>None\<close> default.\<close>

record init_args =
  filepath_arg :: string
  file_format_arg :: string
  load_args_arg :: "kwargs option"
  save_args_arg :: "kwargs option"
  version_arg :: "Version option"
  credentials_arg :: "kwargs option"
  fs_args_arg :: "kwargs option"
  metadata_arg :: "kwargs option"

section \<open>Effects\<close>

text \<open>
  The state threaded through every operation: the outside world \<open>'w\<close> (file contents and
  filesystem caches, owned by the libraries) and the list of effectful calls the adapter
  has issued so far, oldest first. A call is recorded when it is made, whether or not it
  then raises.
\<close>

datatype event =
    Warned string
  | Collected
  | Serialized string
  | Opened string string
  | Wrote string string
  | Closed string
  | CacheInvalidated string

record 'w state =
  world :: 'w
  trace :: "event list"

definition emit :: "event \<Rightarrow> 'w state \<Rightarrow> 'w state" where
  "emit ev st = st\<lparr>trace := trace st @ [ev]\<rparr>"

text \<open>
  The library calls. A call that reads takes the world and returns a value or an
  exception; a call that writes returns the exception it raised, if any, and the new world.
  \<^item> \<open>get_protocol_and_path\<close>, \<open>get_filepath_str\<close>: \<^verbatim>\<open>kedro.io.core\<close>;
  \<^item> \<open>get_load_path\<close>, \<open>get_save_path\<close>: the base class's \<^verbatim>\<open>_get_load_path\<close> and
    \<^verbatim>\<open>_get_save_path\<close>, which read the filesystem and update the version cache;
  \<^item> \<open>new_version_cache\<close>: the empty cache of the base class constructor and of its
    \<^verbatim>\<open>_release\<close>;
  \<^item> \<open>PurePosixPath\<close>, \<open>Path_is_dir\<close>: \<^verbatim>\<open>pathlib\<close>; \<open>Path_is_dir\<close> asks the local
    operating system, whatever the protocol, and raises the operating system's error when
    it is not one of those that mean that the path does not exist (a name that is too
    long, a directory that may not be searched);
  \<^item> \<open>fsspec_filesystem\<close>, \<open>fs_exists\<close>, \<open>fs_open\<close>, \<open>file_write\<close>, \<open>file_close\<close>,
    \<open>fs_invalidate_cache\<close>: fsspec and the file object it opens;
  \<^item> \<open>fs_isdir\<close>: the directory test of the filesystem handle, \<^verbatim>\<open>fs.isdir\<close>. The
    adapter never calls it; it says which paths are directories of the store that the
    adapter writes to;
  \<^item> \<open>pl_getattr\<close>: \<^verbatim>\<open>getattr(pl, name, None)\<close> for a scan routine of the polars
    module; \<open>df_getattr\<close>: \<^verbatim>\<open>getattr(df, name, None)\<close> for a write method of a
    dataframe, which serialises into a fresh buffer and yields its bytes;
  \<^item> \<open>collect\<close>: \<^verbatim>\<open>LazyFrame.collect\<close>; \<open>ds_dataset\<close>: \<^verbatim>\<open>pyarrow.dataset.dataset\<close>;
    \<open>scan_pyarrow_dataset\<close>: \<^verbatim>\<open>pl.scan_pyarrow_dataset\<close>.
\<close>

record ('fs, 'vc, 'w, 'df, 'lf, 'ds) env =
  get_protocol_and_path :: "string \<Rightarrow> Version option \<Rightarrow> error + string \<times> string"
  get_filepath_str :: "string \<Rightarrow> string \<Rightarrow> string"
  PurePosixPath :: "string \<Rightarrow> string"
  new_version_cache :: 'vc
  get_load_path :: "('fs, 'vc) PolarsDataset \<Rightarrow> 'w \<Rightarrow> (error + string) \<times> 'vc"
  get_save_path :: "('fs, 'vc) PolarsDataset \<Rightarrow> 'w \<Rightarrow> (error + string) \<times> 'vc"
  Path_is_dir :: "'w \<Rightarrow> string \<Rightarrow> error + bool"
  fsspec_filesystem :: "string \<Rightarrow> kwargs \<Rightarrow> error + 'fs"
  fs_exists :: "'fs \<Rightarrow> string \<Rightarrow> 'w \<Rightarrow> error + bool"
  fs_isdir :: "'fs \<Rightarrow> string \<Rightarrow> 'w \<Rightarrow> bool"
  fs_open :: "'fs \<Rightarrow> string \<Rightarrow> string \<Rightarrow> 'w \<Rightarrow> error option \<times> 'w"
  file_write :: "'fs \<Rightarrow> string \<Rightarrow> string \<Rightarrow> 'w \<Rightarrow> error option \<times> 'w"
  file_close :: "'fs \<Rightarrow> string \<Rightarrow> 'w \<Rightarrow> error option \<times> 'w"
  fs_invalidate_cache :: "'fs \<Rightarrow> string \<Rightarrow> 'w \<Rightarrow> error option \<times> 'w"
  pl_getattr :: "string \<Rightarrow> (string \<Rightarrow> kwargs \<Rightarrow> 'w \<Rightarrow> error + 'lf) option"
  df_getattr :: "'df \<Rightarrow> string \<Rightarrow> (kwargs \<Rightarrow> error + string) option"
  collect :: "'lf \<Rightarrow> 'w \<Rightarrow> error + 'df"
  ds_dataset :: "string \<Rightarrow> 'fs \<Rightarrow> string \<Rightarrow> 'w \<Rightarrow> error + 'ds"
  scan_pyarrow_dataset :: "'ds \<Rightarrow> error + 'lf"

section \<open>Construction\<close>

definition ACCEPTED_FILE_FORMATS :: "string list" where
  "ACCEPTED_FILE_FORMATS = [''csv'', ''parquet'']"

text \<open>
  \<^verbatim>\<open>str.lower\<close> on the ASCII letters. A string is its UTF-8 bytes, and the bytes of a
  code point beyond ASCII are left as they are. Python lowers such code points too, but
  never to a string of letters of \<open>csv\<close> or \<open>parquet\<close> (the only ones that lower to an
  ASCII letter are U+0130 and U+212A, to \<open>i\<close> and \<open>k\<close>). So the membership test of the
  format check decides as Python's does on every string, and the lowered string itself is
  Python's on every ASCII string; on other strings the text of the lowered format, which
  only the error message shows, is not modelled.
\<close>

definition lower_char :: "char \<Rightarrow> char" where
  "lower_char c =
     (case map_of (zip ''ABCDEFGHIJKLMNOPQRSTUVWXYZ'' ''abcdefghijklmnopqrstuvwxyz'') c of
        Some d \<Rightarrow> d
      | None \<Rightarrow> c)"

definition lower :: "string \<Rightarrow> string" where
  "lower s = map lower_char s"

text \<open>The single quote that the messages of the source put around names.\<close>

definition apostrophe :: string where
  "apostrophe = [CHR 0x27]"

text \<open>
  The message of the format error. Only the first literal of the source is an f-string,
  so the braces of the second one are not substituted.
\<close>

definition format_error_message :: "string \<Rightarrow> string" where
  "format_error_message fmt =
     apostrophe @ fmt @ apostrophe @ '' is not an accepted format '' @
     ''({ACCEPTED_FILE_FORMATS}) ensure that your '' @
     apostrophe @ ''file_format'' @ apostrophe @
     '' parameter has been defined correctly as per the Polars'' @
     '' Lazy API'' @
     '' https://pola-rs.github.io/polars/py-polars/html/reference/io.html''"

definition storage_options_warning :: "string \<Rightarrow> string" where
  "storage_options_warning path =
     ''Dropping '' @ apostrophe @ ''storage_options'' @ apostrophe @ '' for '' @ path @
     '', '' @
     ''please specify them under '' @ apostrophe @ ''fs_args'' @ apostrophe @ '' or '' @
     apostrophe @ ''credentials'' @ apostrophe @ ''.''"

text \<open>\<^verbatim>\<open>deepcopy(d) or {}\<close> and \<^verbatim>\<open>defaults.update(d)\<close> on the empty defaults.\<close>

definition or_empty :: "kwargs option \<Rightarrow> kwargs" where
  "or_empty d = (case d of None \<Rightarrow> Map.empty | Some m \<Rightarrow> m)"

definition DEFAULT_LOAD_ARGS :: kwargs where
  "DEFAULT_LOAD_ARGS = Map.empty"

definition DEFAULT_SAVE_ARGS :: kwargs where
  "DEFAULT_SAVE_ARGS = Map.empty"

definition merge_args :: "kwargs \<Rightarrow> kwargs option \<Rightarrow> kwargs" where
  "merge_args defaults supplied =
     (case supplied of None \<Rightarrow> defaults | Some m \<Rightarrow> defaults ++ m)"

text \<open>\<^verbatim>\<open>d.setdefault(k, v)\<close> and \<^verbatim>\<open>d.pop(k, None)\<close>.\<close>

definition setdefault :: "kwargs \<Rightarrow> string \<Rightarrow> pyval \<Rightarrow> kwargs" where
  "setdefault d k v = (case d k of None \<Rightarrow> d(k \<mapsto> v) | Some _ \<Rightarrow> d)"

definition pop :: "kwargs \<Rightarrow> string \<Rightarrow> kwargs" where
  "pop d k = d(k := None)"

definition PolarsDataset_init ::
  "('fs, 'vc, 'w, 'df, 'lf, 'ds) env \<Rightarrow> init_args \<Rightarrow> 'w state \<Rightarrow>
     (error + ('fs, 'vc) PolarsDataset) \<times> 'w state" where
  "PolarsDataset_init env args st =
     (let fmt = lower (file_format_arg args) in
      if fmt \<notin> set ACCEPTED_FILE_FORMATS
      then (Inl (DatasetError (format_error_message fmt)), st)
      else
        let fs_args0 = or_empty (fs_args_arg args);
            credentials0 = or_empty (credentials_arg args)
        in case get_protocol_and_path env (filepath_arg args) (version_arg args) of
             Inl e \<Rightarrow> (Inl e, st)
           | Inr (proto, path) \<Rightarrow>
               let fs_args1 =
                     (if proto = ''file''
                      then setdefault fs_args0 ''auto_mkdir'' (PBool True)
                      else fs_args0);
                   so = credentials0 ++ fs_args1
               in case fsspec_filesystem env proto so of
                    Inl e \<Rightarrow> (Inl e, st)
                  | Inr handle \<Rightarrow>
                      let la = merge_args DEFAULT_LOAD_ARGS (load_args_arg args);
                          sa = merge_args DEFAULT_SAVE_ARGS (save_args_arg args);
                          fp = PurePosixPath env path;
                          drop = (sa ''storage_options'' \<noteq> None
                                  \<or> la ''storage_options'' \<noteq> None)
                      in (Inr \<lparr>file_format = fmt,
                               protocol = proto,
                               storage_options = so,
                               fs = handle,
                               metadata = metadata_arg args,
                               filepath = fp,
                               version = version_arg args,
                               version_cache = new_version_cache env,
                               load_args = (if drop then pop la ''storage_options'' else la),
                               save_args = (if drop then pop sa ''storage_options'' else sa)\<rparr>,
                          if drop then emit (Warned (storage_options_warning fp)) st else st))"

section \<open>Load, save, existence check, release\<close>

text \<open>Calling \<^verbatim>\<open>None\<close>, the default of a missed \<^verbatim>\<open>getattr\<close>, raises a type error.\<close>

definition none_not_callable :: error where
  "none_not_callable =
     LibraryError (''TypeError: '' @ apostrophe @ ''NoneType'' @ apostrophe @
                   '' object is not callable'')"

definition set_cache ::
  "('fs, 'vc) PolarsDataset \<Rightarrow> 'vc \<Rightarrow> ('fs, 'vc) PolarsDataset" where
  "set_cache self vc = self\<lparr>version_cache := vc\<rparr>"

definition PolarsDataset_load ::
  "('fs, 'vc, 'w, 'df, 'lf, 'ds) env \<Rightarrow> ('fs, 'vc) PolarsDataset \<Rightarrow> 'w state \<Rightarrow>
     (error + 'lf) \<times> ('fs, 'vc) PolarsDataset \<times> 'w state" where
  "PolarsDataset_load env self st =
     (case get_load_path env self (world st) of
        (Inl e, vc) \<Rightarrow> (Inl e, set_cache self vc, st)
      | (Inr load_path, vc) \<Rightarrow>
          (if protocol self = ''file''
           then (case pl_getattr env (''scan_'' @ file_format self) of
                   None \<Rightarrow> Inl none_not_callable
                 | Some load_method \<Rightarrow> load_method load_path (load_args self) (world st))
           else (case fsspec_filesystem env ''s3'' Map.empty of
                   Inl e \<Rightarrow> Inl e
                 | Inr _ \<Rightarrow>
                     (case ds_dataset env load_path (fs self) (file_format self) (world st) of
                        Inl e \<Rightarrow> Inl e
                      | Inr dataset \<Rightarrow> scan_pyarrow_dataset env dataset)),
           set_cache self vc, st))"

definition PolarsDataset_invalidate_cache ::
  "('fs, 'vc, 'w, 'df, 'lf, 'ds) env \<Rightarrow> ('fs, 'vc) PolarsDataset \<Rightarrow> 'w state \<Rightarrow>
     error option \<times> 'w state" where
  "PolarsDataset_invalidate_cache env self st =
     (let path = get_filepath_str env (filepath self) (protocol self);
          st1 = emit (CacheInvalidated path) st;
          (r, w) = fs_invalidate_cache env (fs self) path (world st1)
      in (r, st1\<lparr>world := w\<rparr>))"

text \<open>
  Leaving the \<^verbatim>\<open>with\<close> block closes the file, also when the block raised; an exception
  raised by the close replaces the one in flight.
\<close>

definition close_file ::
  "('fs, 'vc, 'w, 'df, 'lf, 'ds) env \<Rightarrow> ('fs, 'vc) PolarsDataset \<Rightarrow> string \<Rightarrow>
     error option \<Rightarrow> 'w state \<Rightarrow> error option \<times> 'w state" where
  "close_file env self path pending st =
     (let st1 = emit (Closed path) st;
          (r, w) = file_close env (fs self) path (world st1)
      in (case r of None \<Rightarrow> pending | Some e \<Rightarrow> Some e, st1\<lparr>world := w\<rparr>))"

definition write_buffer ::
  "('fs, 'vc, 'w, 'df, 'lf, 'ds) env \<Rightarrow> ('fs, 'vc) PolarsDataset \<Rightarrow> string \<Rightarrow> string \<Rightarrow>
     'w state \<Rightarrow> error option \<times> 'w state" where
  "write_buffer env self save_path buf st =
     (let st1 = emit (Opened save_path ''wb'') st;
          (r1, w1) = fs_open env (fs self) save_path ''wb'' (world st1)
      in case r1 of
           Some e \<Rightarrow> (Some e, st1\<lparr>world := w1\<rparr>)
         | None \<Rightarrow>
             let st2 = emit (Wrote save_path buf) (st1\<lparr>world := w1\<rparr>);
                 (r2, w2) = file_write env (fs self) save_path buf (world st2)
             in case r2 of
                  Some e \<Rightarrow> close_file env self save_path (Some e) (st2\<lparr>world := w2\<rparr>)
                | None \<Rightarrow>
                    let (r3, st3) = PolarsDataset_invalidate_cache env self (st2\<lparr>world := w2\<rparr>)
                    in close_file env self save_path r3 st3)"

definition directory_error_message :: string where
  "directory_error_message = ''Saving PolarsDataset to a directory is not supported.''"

definition partition_cols_error_message :: string where
  "partition_cols_error_message =
     ''PolarsDataset does not support save argument '' @
     apostrophe @ ''partition_cols'' @ apostrophe @ ''. Please use '' @
     apostrophe @ ''kedro.io.PartitionedDataset'' @ apostrophe @ '' instead.''"

definition write_method_error_message :: "string \<Rightarrow> string" where
  "write_method_error_message fmt =
     ''Unable to retrieve '' @ apostrophe @ ''polars.DataFrame.write_'' @ fmt @
     apostrophe @ '' '' @
     ''method, please ensure that your '' @ apostrophe @ ''file_format'' @ apostrophe @
     '' parameter has been '' @
     ''defined correctly as per the Polars API'' @
     ''https://pola-rs.github.io/polars/py-polars/html/reference/dataframe/index.html''"

text \<open>
  Lines 218 to 222 of the source: a lazy frame is collected, a dataframe is used as it is.
\<close>

definition collect_data ::
  "('fs, 'vc, 'w, 'df, 'lf, 'ds) env \<Rightarrow> ('df, 'lf) PolarsFrame \<Rightarrow> 'w state \<Rightarrow>
     (error + 'df) \<times> 'w state" where
  "collect_data env data st =
     (case data of
        LazyFrame lf \<Rightarrow> (collect env lf (world st), emit Collected st)
      | DataFrame df \<Rightarrow> (Inr df, st))"

text \<open>
  Lines 226 to 230 of the source, the branch of \<^verbatim>\<open>_save\<close> taken when the lookup of
  the write method has found one: serialise into the buffer with the save options, then
  write the buffer.
\<close>

definition write_data ::
  "('fs, 'vc, 'w, 'df, 'lf, 'ds) env \<Rightarrow> ('fs, 'vc) PolarsDataset \<Rightarrow> string \<Rightarrow>
     (kwargs \<Rightarrow> error + string) \<Rightarrow> 'w state \<Rightarrow> error option \<times> 'w state" where
  "write_data env self save_path save_method st =
     (let st1 = emit (Serialized (''write_'' @ file_format self)) st
      in case save_method (save_args self) of
           Inl e \<Rightarrow> (Some e, st1)
         | Inr buf \<Rightarrow> write_buffer env self save_path buf st1)"

definition PolarsDataset_save ::
  "('fs, 'vc, 'w, 'df, 'lf, 'ds) env \<Rightarrow> ('fs, 'vc) PolarsDataset \<Rightarrow>
     ('df, 'lf) PolarsFrame \<Rightarrow> 'w state \<Rightarrow>
     error option \<times> ('fs, 'vc) PolarsDataset \<times> 'w state" where
  "PolarsDataset_save env self data st =
     (case get_save_path env self (world st) of
        (Inl e, vc) \<Rightarrow> (Some e, set_cache self vc, st)
      | (Inr p, vc) \<Rightarrow>
          let self1 = set_cache self vc;
              save_path = get_filepath_str env p (protocol self)
          in case Path_is_dir env (world st) save_path of
               Inl e \<Rightarrow> (Some e, self1, st)
             | Inr True \<Rightarrow> (Some (DatasetError directory_error_message), self1, st)
             | Inr False \<Rightarrow>
                 if save_args self ''partition_cols'' \<noteq> None
                 then (Some (DatasetError partition_cols_error_message), self1, st)
                 else
                   let (collected_data, st1) = collect_data env data st
                   in case collected_data of
                        Inl e \<Rightarrow> (Some e, self1, st1)
                      | Inr df \<Rightarrow>
                          (case df_getattr env df (''write_'' @ file_format self) of
                             None \<Rightarrow>
                               (Some (DatasetError
                                        (write_method_error_message (file_format self))),
                                self1, st1)
                           | Some save_method \<Rightarrow>
                               let (r, st2) = write_data env self1 save_path save_method st1
                               in (r, self1, st2)))"

definition PolarsDataset_exists ::
  "('fs, 'vc, 'w, 'df, 'lf, 'ds) env \<Rightarrow> ('fs, 'vc) PolarsDataset \<Rightarrow> 'w state \<Rightarrow>
     (error + bool) \<times> ('fs, 'vc) PolarsDataset \<times> 'w state" where
  "PolarsDataset_exists env self st =
     (case get_load_path env self (world st) of
        (Inl (DatasetError msg), vc) \<Rightarrow> (Inr False, set_cache self vc, st)
      | (Inl (LibraryError msg), vc) \<Rightarrow> (Inl (LibraryError msg), set_cache self vc, st)
      | (Inr p, vc) \<Rightarrow>
          (fs_exists env (fs self) (get_filepath_str env p (protocol self)) (world st),
           set_cache self vc, st))"

definition PolarsDataset_release ::
  "('fs, 'vc, 'w, 'df, 'lf, 'ds) env \<Rightarrow> ('fs, 'vc) PolarsDataset \<Rightarrow> 'w state \<Rightarrow>
     error option \<times> ('fs, 'vc) PolarsDataset \<times> 'w state" where
  "PolarsDataset_release env self st =
     (let self1 = set_cache self (new_version_cache env);
          (r, st1) = PolarsDataset_invalidate_cache env self1 st
      in (r, self1, st1))"

section \<open>Sequences of operations\<close>

text \<open>
  The four operations a caller can issue after construction. A caller that catches the
  exception of one operation goes on with the same instance, so a sequence is run to its
  end whatever each operation returns.
\<close>

datatype ('df, 'lf) operation =
    Load
  | Save "('df, 'lf) PolarsFrame"
  | Exists
  | Release

fun run_op ::
  "('fs, 'vc, 'w, 'df, 'lf, 'ds) env \<Rightarrow> ('df, 'lf) operation \<Rightarrow>
     ('fs, 'vc) PolarsDataset \<times> 'w state \<Rightarrow> ('fs, 'vc) PolarsDataset \<times> 'w state" where
  "run_op env Load (self, st) = snd (PolarsDataset_load env self st)"
| "run_op env (Save data) (self, st) = snd (PolarsDataset_save env self data st)"
| "run_op env Exists (self, st) = snd (PolarsDataset_exists env self st)"
| "run_op env Release (self, st) = snd (PolarsDataset_release env self st)"

fun run_ops ::
  "('fs, 'vc, 'w, 'df, 'lf, 'ds) env \<Rightarrow> ('df, 'lf) operation list \<Rightarrow>
     ('fs, 'vc) PolarsDataset \<times> 'w state \<Rightarrow> ('fs, 'vc) PolarsDataset \<times> 'w state" where
  "run_ops env [] c = c"
| "run_ops env (x # xs) c = run_ops env xs (run_op env x c)"

section \<open>A small in-memory environment\<close>

text \<open>
  A concrete instance of the libraries, on which the theorems below are evaluated: a world
  of files, directories of the local disk, directories of the remote object store and
  cached listings; filesystem handles named by their protocol; dataframes, lazy frames and
  dataset views standing for their serialised text. Path resolution follows the framework:
  an unversioned dataset resolves to its filepath, a versioned one to
  \<^verbatim>\<open>filepath/version/filename\<close>. The local directory test raises the operating
  system's error 36 on a path whose first component has more than 255 bytes, as
  \<^verbatim>\<open>Path.is_dir\<close> does. An object store has no directory entries, so writing an object
  whose key is also the prefix of other objects succeeds.
\<close>

record demo_world =
  files :: "(string \<times> string) list"
  dirs :: "string list"
  store_dirs :: "string list"
  listings :: "string list"

definition name_too_long :: "string \<Rightarrow> bool" where
  "name_too_long p = (255 < length (takeWhile (\<lambda>c. c \<noteq> CHR ''/'') p))"

definition demo_is_dir :: "demo_world \<Rightarrow> string \<Rightarrow> error + bool" where
  "demo_is_dir w p =
     (if name_too_long p then Inl (LibraryError ''OSError: [Errno 36] File name too long'')
      else Inr (p \<in> set (dirs w)))"

definition basename :: "string \<Rightarrow> string" where
  "basename p = rev (takeWhile (\<lambda>c. c \<noteq> CHR ''/'') (rev p))"

definition versioned_path :: "string \<Rightarrow> string \<Rightarrow> string" where
  "versioned_path p v = p @ ''/'' @ v @ ''/'' @ basename p"

definition demo_read :: "demo_world \<Rightarrow> string \<Rightarrow> error + string" where
  "demo_read w p =
     (case map_of (files w) p of
        None \<Rightarrow> Inl (LibraryError ''FileNotFoundError'')
      | Some c \<Rightarrow> Inr c)"

definition demo_load_path ::
  "(string, string list) PolarsDataset \<Rightarrow> demo_world \<Rightarrow> (error + string) \<times> string list" where
  "demo_load_path self w =
     (case version self of
        None \<Rightarrow> (Inr (filepath self), version_cache self)
      | Some (Version (Some v) _) \<Rightarrow>
          (Inr (versioned_path (filepath self) v), v # version_cache self)
      | Some (Version None _) \<Rightarrow>
          (Inl (DatasetError (''Did not find any versions for '' @ filepath self)),
           version_cache self))"

definition demo_save_path ::
  "(string, string list) PolarsDataset \<Rightarrow> demo_world \<Rightarrow> (error + string) \<times> string list" where
  "demo_save_path self w =
     (case version self of
        None \<Rightarrow> (Inr (filepath self), version_cache self)
      | Some (Version _ sv) \<Rightarrow>
          (let v = (case sv of None \<Rightarrow> ''2026-01-01T00.00.00.000Z'' | Some s \<Rightarrow> s);
               p = versioned_path (filepath self) v
           in if map_of (files w) p \<noteq> None
              then (Inl (DatasetError (''Save path '' @ p @ '' must not exist'')),
                    v # version_cache self)
              else (Inr p, v # version_cache self)))"

definition demo_env ::
  "(string, string list, demo_world, string, string, string) env" where
  "demo_env =
     \<lparr>get_protocol_and_path =
        (\<lambda>p v. if take 5 p = ''s3://'' then Inr (''s3'', drop 5 p) else Inr (''file'', p)),
      get_filepath_str =
        (\<lambda>p proto. if proto = ''http'' \<or> proto = ''https'' then proto @ ''://'' @ p else p),
      PurePosixPath = (\<lambda>p. p),
      new_version_cache = [],
      get_load_path = demo_load_path,
      get_save_path = demo_save_path,
      Path_is_dir = demo_is_dir,
      fsspec_filesystem = (\<lambda>proto so. Inr proto),
      fs_exists = (\<lambda>h p w. Inr (map_of (files w) p \<noteq> None)),
      fs_isdir =
        (\<lambda>h p w. if h = ''file'' then p \<in> set (dirs w) else p \<in> set (store_dirs w)),
      fs_open = (\<lambda>h p mode w. (None, w)),
      file_write = (\<lambda>h p buf w. (None, w\<lparr>files := (p, buf) # files w\<rparr>)),
      file_close = (\<lambda>h p w. (None, w)),
      fs_invalidate_cache = (\<lambda>h p w. (None, w\<lparr>listings := removeAll p (listings w)\<rparr>)),
      pl_getattr =
        (\<lambda>name. if name = ''scan_csv'' \<or> name = ''scan_parquet''
                then Some (\<lambda>p kw w. demo_read w p) else None),
      df_getattr =
        (\<lambda>df name. if name = ''write_csv'' \<or> name = ''write_parquet''
                   then Some (\<lambda>kw. Inr df) else None),
      collect = (\<lambda>lf w. Inr lf),
      ds_dataset = (\<lambda>p h fmt w. demo_read w p),
      scan_pyarrow_dataset = (\<lambda>d. Inr d)\<rparr>"

definition demo_state :: "demo_world state" where
  "demo_state =
     \<lparr>world = \<lparr>files = [], dirs = [''data''], store_dirs = [''bucket/data''],
               listings = [''data/test.csv'']\<rparr>,
      trace = []\<rparr>"

definition demo_args :: init_args where
  "demo_args =
     \<lparr>filepath_arg = ''data/test.csv'',
      file_format_arg = ''CSV'',
      load_args_arg = Some [''storage_options'' \<mapsto> PStr ''x'', ''separator'' \<mapsto> PStr '';''],
      save_args_arg = None,
      version_arg = None,
      credentials_arg = None,
      fs_args_arg = None,
      metadata_arg = None\<rparr>"

text \<open>The instance that \<open>demo_args\<close> constructs, and variants of it.\<close>

definition demo_dataset :: "(string, string list) PolarsDataset" where
  "demo_dataset =
     \<lparr>file_format = ''csv'',
      protocol = ''file'',
      storage_options = [''auto_mkdir'' \<mapsto> PBool True],
      fs = ''file'',
      metadata = None,
      filepath = ''data/test.csv'',
      version = None,
      version_cache = [],
      load_args = [''separator'' \<mapsto> PStr '';''],
      save_args = Map.empty\<rparr>"

definition partitioned_dataset :: "(string, string list) PolarsDataset" where
  "partitioned_dataset =
     demo_dataset\<lparr>save_args := [''partition_cols'' \<mapsto> PList [PStr ''a'']]\<rparr>"

definition versioned_dataset :: "(string, string list) PolarsDataset" where
  "versioned_dataset = demo_dataset\<lparr>version := Some (Version None (Some ''v1''))\<rparr>"

definition never_saved_dataset :: "(string, string list) PolarsDataset" where
  "never_saved_dataset = demo_dataset\<lparr>version := Some (Version None None)\<rparr>"

definition remote_dataset :: "(string, string list) PolarsDataset" where
  "remote_dataset =
     demo_dataset\<lparr>protocol := ''s3'', fs := ''s3'', filepath := ''bucket/test.csv''\<rparr>"

text \<open>
  An instance with \<open>partition_cols\<close> whose filepath starts with a name of 300 bytes, and a
  remote instance whose filepath is a directory of the object store and not of the local
  disk, with the state after it saved the frame \<open>a,b\<close>.
\<close>

definition long_name_dataset :: "(string, string list) PolarsDataset" where
  "long_name_dataset =
     partitioned_dataset\<lparr>filepath := replicate 300 (CHR ''a'') @ ''/x.csv''\<rparr>"



text \<open>The state after \<open>demo_dataset\<close> saved the frame \<open>a,b\<close>, and one with two files.\<close>

definition after_save :: "demo_world state" where
  "after_save =
     \<lparr>world = \<lparr>files = [(''data/test.csv'', ''a,b'')], dirs = [''data''],
               store_dirs = [''bucket/data''], listings = []\<rparr>,
      trace = [Serialized ''write_csv'',
               Opened ''data/test.csv'' ''wb'',
               Wrote ''data/test.csv'' ''a,b'',
               CacheInvalidated ''data/test.csv'',
               Closed ''data/test.csv'']\<rparr>"

definition saved_state :: "demo_world state" where
  "saved_state =
     \<lparr>world = \<lparr>files = [(''data/test.csv'', ''a;b''), (''bucket/test.csv'', ''c,d'')],
               dirs = [''data''], store_dirs = [''bucket/data''], listings = []\<rparr>,
      trace = []\<rparr>"

section \<open>Construction: the format check\<close>

lemma accepted_set: "set ACCEPTED_FILE_FORMATS = {''csv'', ''parquet''}"
  by (simp add: ACCEPTED_FILE_FORMATS_def)

lemma lower_JSON: "lower ''JSON'' = ''json''"
  by (simp add: lower_def lower_char_def)

lemma lower_CSV: "lower ''CSV'' = ''csv''"
  by (simp add: lower_def lower_char_def)

lemma demo_file_format: "file_format_arg demo_args = ''CSV''"
  by (simp add: demo_args_def)

lemma init_demo:
  "PolarsDataset_init demo_env demo_args demo_state =
     (Inr demo_dataset, emit (Warned (storage_options_warning ''data/test.csv'')) demo_state)"
  unfolding PolarsDataset_init_def Let_def
  by (simp add: demo_args_def demo_env_def demo_dataset_def lower_CSV ACCEPTED_FILE_FORMATS_def
      or_empty_def merge_args_def setdefault_def pop_def DEFAULT_LOAD_ARGS_def
      DEFAULT_SAVE_ARGS_def fun_eq_iff)

text \<open>
  Every operation returns the instance it was given, up to the version cache; so does
  every sequence of operations.
\<close>

lemma set_cache_twice: "set_cache (set_cache self vc) vc' = set_cache self vc'"
  by (simp add: set_cache_def)

lemma load_keeps: "\<exists>vc. fst (snd (PolarsDataset_load env self st)) = set_cache self vc"
  unfolding PolarsDataset_load_def
  by (cases "get_load_path env self (world st)") (auto split: sum.splits)

lemma save_keeps: "\<exists>vc. fst (snd (PolarsDataset_save env self data st)) = set_cache self vc"
  unfolding PolarsDataset_save_def Let_def
  by (cases "get_save_path env self (world st)")
     (auto split: sum.splits prod.splits option.splits bool.splits)

lemma exists_keeps: "\<exists>vc. fst (snd (PolarsDataset_exists env self st)) = set_cache self vc"
  unfolding PolarsDataset_exists_def
  by (cases "get_load_path env self (world st)") (auto split: sum.splits error.splits)

lemma release_keeps: "\<exists>vc. fst (snd (PolarsDataset_release env self st)) = set_cache self vc"
  unfolding PolarsDataset_release_def Let_def
  by (auto split: prod.splits)

lemma run_op_keeps: "\<exists>vc. fst (run_op env x (self, st)) = set_cache self vc"
  using load_keeps [of env self st] save_keeps [of env self _ st]
        exists_keeps [of env self st] release_keeps [of env self st]
  by (cases x) simp_all

lemma run_ops_keeps: "\<exists>vc. fst (run_ops env xs (self, st)) = set_cache self vc"
proof (induction xs arbitrary: self st)
  case Nil
  have "self = set_cache self (version_cache self)" by (simp add: set_cache_def)
  then show ?case by auto
next
  case (Cons x xs)
  obtain self1 st1 where s: "run_op env x (self, st) = (self1, st1)"
    by (cases "run_op env x (self, st)")
  from run_op_keeps [of env x self st] s obtain vc where v: "self1 = set_cache self vc"
    by auto
  from Cons.IH [of self1 st1] obtain vc' where
    "fst (run_ops env xs (self1, st1)) = set_cache self1 vc'" by auto
  with s v show ?case by (auto simp add: set_cache_twice)
qed

lemma init_args_result:
  "PolarsDataset_init env args st = (Inr self, st') \<Longrightarrow>
   load_args self = (or_empty (load_args_arg args))(''storage_options'' := None)
   \<and> save_args self = (or_empty (save_args_arg args))(''storage_options'' := None)"
  unfolding PolarsDataset_init_def Let_def
  by (auto simp add: merge_args_def or_empty_def pop_def DEFAULT_LOAD_ARGS_def
        DEFAULT_SAVE_ARGS_def fun_eq_iff
      split: if_splits sum.splits prod.splits option.splits)

lemma init_format:
  "PolarsDataset_init env args st = (Inr self, st') \<Longrightarrow>
   file_format self = ''csv'' \<or> file_format self = ''parquet''"
  unfolding PolarsDataset_init_def Let_def
  by (auto simp add: ACCEPTED_FILE_FORMATS_def split: if_splits sum.splits prod.splits)

text \<open>Facts about the in-memory environment.\<close>

lemma long_name: "name_too_long (replicate 300 (CHR ''a'') @ ''/x.csv'')"
proof -
  have "takeWhile (\<lambda>c. c \<noteq> CHR ''/'') (replicate 300 (CHR ''a'') @ ''/x.csv'') =
          replicate 300 (CHR ''a'') @ takeWhile (\<lambda>c. c \<noteq> CHR ''/'') ''/x.csv''"
    by (rule takeWhile_append2) simp
  then show ?thesis by (simp add: name_too_long_def)
qed

lemma short_names:
  "\<not> name_too_long ''data/test.csv''" "\<not> name_too_long ''data''"
  "\<not> name_too_long ''bucket/data''" "\<not> name_too_long ''data/test.csv/v1/test.csv''"
  by (simp_all add: name_too_long_def)

lemma basename_test: "basename ''data/test.csv'' = ''test.csv''"
  by (simp add: basename_def)

lemma save_demo:
  "PolarsDataset_save demo_env demo_dataset (DataFrame ''a,b'') demo_state =
     (None, demo_dataset, after_save)"
  by (simp add: PolarsDataset_save_def collect_data_def write_data_def write_buffer_def
      close_file_def PolarsDataset_invalidate_cache_def emit_def set_cache_def Let_def
      demo_dataset_def demo_env_def demo_save_path_def demo_state_def after_save_def
      demo_is_dir_def short_names)

text \<open>
  C2. A file format whose lowercased form is neither \<open>csv\<close> nor \<open>parquet\<close> makes
  construction fail at once with the dataset error that names the lowercased format, and
  nothing else has happened. A file format whose lowercased form is \<open>csv\<close> or \<open>parquet\<close>
  passes the check: construction then stores the lowercased format, and if it fails at all
  the error is one that deriving the protocol or creating the filesystem handle raised.
\<close>

theorem format_check:
  "(lower (file_format_arg args) \<notin> {''csv'', ''parquet''} \<longrightarrow>
      PolarsDataset_init env args st =
        (Inl (DatasetError (format_error_message (lower (file_format_arg args)))), st))
   \<and> (lower (file_format_arg args) \<in> {''csv'', ''parquet''} \<longrightarrow>
        (case fst (PolarsDataset_init env args st) of
           Inr self \<Rightarrow> file_format self = lower (file_format_arg args)
         | Inl e \<Rightarrow>
             get_protocol_and_path env (filepath_arg args) (version_arg args) = Inl e
             \<or> (\<exists>proto so. fsspec_filesystem env proto so = Inl e)))"
  unfolding PolarsDataset_init_def Let_def accepted_set
  by (auto split: sum.splits prod.splits)

theorem format_check_witness:
  "lower ''JSON'' \<notin> {''csv'', ''parquet''}
   \<and> PolarsDataset_init demo_env (demo_args\<lparr>file_format_arg := ''JSON''\<rparr>) demo_state =
       (Inl (DatasetError (format_error_message ''json'')), demo_state)
   \<and> lower ''CSV'' \<in> {''csv'', ''parquet''}
   \<and> file_format demo_dataset = lower ''CSV''"
  using format_check [of "demo_args\<lparr>file_format_arg := ''JSON''\<rparr>" demo_env demo_state]
        format_check [of demo_args demo_env demo_state]
  by (simp add: lower_JSON lower_CSV demo_file_format init_demo)

section \<open>Save: the two guards\<close>

text \<open>
  C3, as stated, fails where the directory test itself raises. The instance has
  \<open>partition_cols\<close> among its save options and a filepath whose first name has 300 bytes;
  \<^verbatim>\<open>Path(save_path).is_dir()\<close> raises the operating system's error for a name that is
  too long, and save raises that error, which is not a dataset error, before it reaches
  the \<open>partition_cols\<close> guard.
\<close>

theorem partition_cols_dataset_error_counterexample:
  "save_args long_name_dataset ''partition_cols'' \<noteq> None
   \<and> PolarsDataset_save demo_env long_name_dataset (DataFrame ''a,b'') demo_state =
       (Some (LibraryError ''OSError: [Errno 36] File name too long''),
        long_name_dataset, demo_state)"
  by (simp add: PolarsDataset_save_def Let_def set_cache_def long_name_dataset_def
      partitioned_dataset_def demo_dataset_def demo_env_def demo_save_path_def
      demo_is_dir_def long_name)

text \<open>
  C3, amended. When the save options of the instance contain \<open>partition_cols\<close>, every call
  of save fails and leaves the state as it found it: the world is the same and the trace
  has no new entry, so nothing was collected, serialised, opened or written. When the
  resolution of the save path and the directory test both return, the error is a dataset
  error, the one of the directory guard or the one of the \<open>partition_cols\<close> guard; when one
  of the two raises, save raises that exception unchanged.
\<close>

theorem partition_cols_save_fails:
  "save_args self ''partition_cols'' \<noteq> None \<Longrightarrow>
   PolarsDataset_save env self data st =
     (Some (case fst (get_save_path env self (world st)) of
              Inl e \<Rightarrow> e
            | Inr p \<Rightarrow>
                (case Path_is_dir env (world st) (get_filepath_str env p (protocol self)) of
                   Inl e \<Rightarrow> e
                 | Inr True \<Rightarrow> DatasetError directory_error_message
                 | Inr False \<Rightarrow> DatasetError partition_cols_error_message)),
      set_cache self (snd (get_save_path env self (world st))), st)
   \<and> (\<forall>p b. fst (get_save_path env self (world st)) = Inr p \<longrightarrow>
          Path_is_dir env (world st) (get_filepath_str env p (protocol self)) = Inr b \<longrightarrow>
          fst (PolarsDataset_save env self data st) =
            Some (DatasetError (if b then directory_error_message
                                else partition_cols_error_message)))"
proof (cases "get_save_path env self (world st)")
  case (Pair r vc)
  assume h: "save_args self ''partition_cols'' \<noteq> None"
  show ?thesis
  proof (cases r)
    case (Inl e)
    with Pair h show ?thesis
      unfolding PolarsDataset_save_def Let_def by simp
  next
    case (Inr p)
    with Pair h show ?thesis
      unfolding PolarsDataset_save_def Let_def
      by (auto split: sum.splits bool.splits)
  qed
qed

theorem partition_cols_save_fails_witness:
  "save_args partitioned_dataset ''partition_cols'' \<noteq> None
   \<and> fst (get_save_path demo_env partitioned_dataset (world demo_state)) = Inr ''data/test.csv''
   \<and> Path_is_dir demo_env (world demo_state)
        (get_filepath_str demo_env ''data/test.csv'' (protocol partitioned_dataset)) = Inr False
   \<and> PolarsDataset_save demo_env partitioned_dataset (DataFrame ''a,b'') demo_state =
       (Some (DatasetError partition_cols_error_message), partitioned_dataset, demo_state)"
proof -
  have h: "save_args partitioned_dataset ''partition_cols'' \<noteq> None"
    by (simp add: partitioned_dataset_def)
  have r: "get_save_path demo_env partitioned_dataset (world demo_state) =
             (Inr ''data/test.csv'', [])"
    by (simp add: partitioned_dataset_def demo_dataset_def demo_env_def demo_save_path_def)
  have d: "Path_is_dir demo_env (world demo_state)
             (get_filepath_str demo_env ''data/test.csv'' (protocol partitioned_dataset)) =
           Inr False"
    by (simp add: partitioned_dataset_def demo_dataset_def demo_env_def demo_state_def
        demo_is_dir_def short_names)
  have c: "set_cache partitioned_dataset [] = partitioned_dataset"
    by (simp add: set_cache_def partitioned_dataset_def demo_dataset_def)
  show ?thesis
    using partition_cols_save_fails [OF h, of demo_env "DataFrame ''a,b''" demo_state] h d
    by (simp add: r c)
qed




section \<open>Construction: the options\<close>

text \<open>
  C5. When construction succeeds and \<open>storage_options\<close> is a key of the supplied load
  options or of the supplied save options, construction logs exactly one warning, and the
  load and save options of the instance are the supplied ones without that key: the key is
  absent from both, every other key has the value that was supplied. The instance keeps
  these options through any sequence of later operations.
\<close>

theorem storage_options_dropped:
  "PolarsDataset_init env args st = (Inr self, st') \<Longrightarrow>
   or_empty (load_args_arg args) ''storage_options'' \<noteq> None
     \<or> or_empty (save_args_arg args) ''storage_options'' \<noteq> None \<Longrightarrow>
   st' = emit (Warned (storage_options_warning (filepath self))) st
   \<and> load_args self ''storage_options'' = None
   \<and> save_args self ''storage_options'' = None
   \<and> (\<forall>k. k \<noteq> ''storage_options'' \<longrightarrow>
          load_args self k = or_empty (load_args_arg args) k
          \<and> save_args self k = or_empty (save_args_arg args) k)
   \<and> load_args (fst (run_ops env xs (self, st2))) = load_args self
   \<and> save_args (fst (run_ops env xs (self, st2))) = save_args self"
proof -
  assume i: "PolarsDataset_init env args st = (Inr self, st')"
    and k: "or_empty (load_args_arg args) ''storage_options'' \<noteq> None
            \<or> or_empty (save_args_arg args) ''storage_options'' \<noteq> None"
  from i k have w: "st' = emit (Warned (storage_options_warning (filepath self))) st"
    unfolding PolarsDataset_init_def Let_def
    by (auto simp add: merge_args_def or_empty_def DEFAULT_LOAD_ARGS_def DEFAULT_SAVE_ARGS_def
        split: if_splits sum.splits prod.splits option.splits)
  obtain vc where "fst (run_ops env xs (self, st2)) = set_cache self vc"
    using run_ops_keeps [of env xs self st2] by auto
  then have r: "load_args (fst (run_ops env xs (self, st2))) = load_args self"
               "save_args (fst (run_ops env xs (self, st2))) = save_args self"
    by (simp_all add: set_cache_def)
  from init_args_result [OF i] w r show ?thesis by simp
qed

theorem storage_options_dropped_witness:
  "PolarsDataset_init demo_env demo_args demo_state =
     (Inr demo_dataset, emit (Warned (storage_options_warning ''data/test.csv'')) demo_state)
   \<and> or_empty (load_args_arg demo_args) ''storage_options'' = Some (PStr ''x'')
   \<and> trace (emit (Warned (storage_options_warning (filepath demo_dataset))) demo_state) =
        [Warned (storage_options_warning ''data/test.csv'')]
   \<and> load_args demo_dataset ''storage_options'' = None
   \<and> load_args demo_dataset ''separator'' = Some (PStr '';'')"
proof -
  have h: "or_empty (load_args_arg demo_args) ''storage_options'' \<noteq> None
           \<or> or_empty (save_args_arg demo_args) ''storage_options'' \<noteq> None"
    by (simp add: demo_args_def or_empty_def)
  have s: "or_empty (load_args_arg demo_args) ''separator'' = Some (PStr '';'')"
          "or_empty (load_args_arg demo_args) ''storage_options'' = Some (PStr ''x'')"
    by (simp_all add: demo_args_def or_empty_def)
  have t: "trace (emit (Warned (storage_options_warning (filepath demo_dataset))) demo_state) =
        [Warned (storage_options_warning ''data/test.csv'')]"
    by (simp add: emit_def demo_state_def demo_dataset_def)
  show ?thesis
    using storage_options_dropped [OF init_demo h, of "[]" demo_state] s t init_demo
    by simp
qed

section \<open>Save: cache invalidation\<close>

text \<open>
  C6, as stated, fails for a versioned instance: the file is written at the resolved path
  \<^verbatim>\<open>data/test.csv/v1/test.csv\<close>, and the cache entry invalidated is the one of the base
  path \<^verbatim>\<open>data/test.csv\<close>; no invalidation is issued for the written path.
\<close>

theorem save_invalidates_written_path_counterexample:
  "fst (PolarsDataset_save demo_env versioned_dataset (DataFrame ''a,b'') demo_state) = None
   \<and> trace (snd (snd (PolarsDataset_save demo_env versioned_dataset (DataFrame ''a,b'')
               demo_state))) =
       [Serialized ''write_csv'',
        Opened ''data/test.csv/v1/test.csv'' ''wb'',
        Wrote ''data/test.csv/v1/test.csv'' ''a,b'',
        CacheInvalidated ''data/test.csv'',
        Closed ''data/test.csv/v1/test.csv'']
   \<and> CacheInvalidated ''data/test.csv/v1/test.csv'' \<notin>
       set (trace (snd (snd (PolarsDataset_save demo_env versioned_dataset (DataFrame ''a,b'')
               demo_state))))"
  by (simp add: PolarsDataset_save_def collect_data_def write_data_def write_buffer_def
      close_file_def PolarsDataset_invalidate_cache_def emit_def set_cache_def Let_def
      versioned_dataset_def demo_dataset_def demo_env_def demo_save_path_def demo_state_def
      versioned_path_def basename_test demo_is_dir_def short_names)

text \<open>
  C6, amended. Every successful save ends with these four calls, in this order: the
  resolved save path is opened for binary writing, the buffer is written to it, the cache
  entry of the instance's base filepath (\<^verbatim>\<open>get_filepath_str\<close> of the unversioned
  \<open>filepath\<close> and the protocol) is invalidated, and the file is closed. Before them come
  only the materialisation of a lazy frame and the serialisation. The invalidated path is
  the written one when the resolved save path is the filepath itself.
\<close>

theorem save_invalidates_base_path:
  "PolarsDataset_save env self data st = (None, self', st') \<Longrightarrow>
   \<exists>p buf pre.
     fst (get_save_path env self (world st)) = Inr p
     \<and> set pre \<subseteq> {Collected, Serialized (''write_'' @ file_format self)}
     \<and> trace st' =
         trace st @ pre @
         [Opened (get_filepath_str env p (protocol self)) ''wb'',
          Wrote (get_filepath_str env p (protocol self)) buf,
          CacheInvalidated (get_filepath_str env (filepath self) (protocol self)),
          Closed (get_filepath_str env p (protocol self))]"
  unfolding PolarsDataset_save_def collect_data_def write_data_def write_buffer_def
      close_file_def PolarsDataset_invalidate_cache_def emit_def set_cache_def Let_def
  by (auto split: prod.splits sum.splits if_splits option.splits PolarsFrame.splits
        bool.splits)

theorem save_invalidates_base_path_witness:
  "PolarsDataset_save demo_env demo_dataset (DataFrame ''a,b'') demo_state =
     (None, demo_dataset, after_save)
   \<and> (\<exists>p buf pre.
        fst (get_save_path demo_env demo_dataset (world demo_state)) = Inr p
        \<and> set pre \<subseteq> {Collected, Serialized (''write_'' @ file_format demo_dataset)}
        \<and> trace after_save =
            trace demo_state @ pre @
            [Opened (get_filepath_str demo_env p (protocol demo_dataset)) ''wb'',
             Wrote (get_filepath_str demo_env p (protocol demo_dataset)) buf,
             CacheInvalidated
               (get_filepath_str demo_env (filepath demo_dataset) (protocol demo_dataset)),
             Closed (get_filepath_str demo_env p (protocol demo_dataset))])"
  using save_invalidates_base_path [OF save_demo] save_demo by simp

section \<open>Existence check\<close>

text \<open>
  C7. When the framework's resolution of the load path raises its dataset error, the
  existence check returns \<open>False\<close> instead of raising; when the resolution returns a path,
  the check returns what the filesystem handle's existence check returns on that path.
\<close>

theorem exists_recovers:
  "(get_load_path env self (world st) = (Inl (DatasetError msg), vc) \<longrightarrow>
      fst (PolarsDataset_exists env self st) = Inr False)
   \<and> (get_load_path env self (world st) = (Inr p, vc) \<longrightarrow>
        fst (PolarsDataset_exists env self st) =
          fs_exists env (fs self) (get_filepath_str env p (protocol self)) (world st))"
  unfolding PolarsDataset_exists_def by simp

theorem exists_recovers_witness:
  "get_load_path demo_env never_saved_dataset (world demo_state) =
     (Inl (DatasetError ''Did not find any versions for data/test.csv''), [])
   \<and> fst (PolarsDataset_exists demo_env never_saved_dataset demo_state) = Inr False
   \<and> get_load_path demo_env demo_dataset (world demo_state) = (Inr ''data/test.csv'', [])
   \<and> fst (PolarsDataset_exists demo_env demo_dataset demo_state) =
       fs_exists demo_env ''file'' ''data/test.csv'' (world demo_state)"
proof -
  have h1: "get_load_path demo_env never_saved_dataset (world demo_state) =
     (Inl (DatasetError ''Did not find any versions for data/test.csv''), [])"
    by (simp add: demo_env_def demo_load_path_def never_saved_dataset_def demo_dataset_def)
  have h2: "get_load_path demo_env demo_dataset (world demo_state) = (Inr ''data/test.csv'', [])"
    by (simp add: demo_env_def demo_load_path_def demo_dataset_def)
  have g: "get_filepath_str demo_env ''data/test.csv'' (protocol demo_dataset) = ''data/test.csv''"
          "fs demo_dataset = ''file''"
    by (simp_all add: demo_env_def demo_dataset_def)
  show ?thesis
    using exists_recovers [of demo_env never_saved_dataset demo_state
            "''Did not find any versions for data/test.csv''" "[]" "''data/test.csv''"]
          exists_recovers [of demo_env demo_dataset demo_state
            "''Did not find any versions for data/test.csv''" "[]" "''data/test.csv''"]
          h1 h2
    by (simp add: g)
qed

section \<open>Load\<close>

text \<open>
  C8. Once the load path is resolved, load changes nothing but the version cache and
  returns a lazy frame as follows. On the protocol \<open>file\<close> it looks the routine
  \<^verbatim>\<open>scan_<format>\<close> up in the dataframe engine and calls it on the resolved path with
  all the load options of the instance. On any other protocol it builds the dataset view
  over the resolved path, the filesystem handle of the instance and the format, and wraps
  it in a lazy scan; the load options are not used, so that replacing them by any others
  gives the same result.
\<close>

theorem load_dispatch:
  "get_load_path env self (world st) = (Inr p, vc) \<Longrightarrow>
   snd (PolarsDataset_load env self st) = (set_cache self vc, st)
   \<and> (protocol self = ''file'' \<longrightarrow>
        fst (PolarsDataset_load env self st) =
          (case pl_getattr env (''scan_'' @ file_format self) of
             None \<Rightarrow> Inl none_not_callable
           | Some load_method \<Rightarrow> load_method p (load_args self) (world st)))
   \<and> (protocol self \<noteq> ''file'' \<longrightarrow>
        fst (PolarsDataset_load env self st) =
          (case fsspec_filesystem env ''s3'' Map.empty of
             Inl e \<Rightarrow> Inl e
           | Inr _ \<Rightarrow>
               (case ds_dataset env p (fs self) (file_format self) (world st) of
                  Inl e \<Rightarrow> Inl e
                | Inr dataset \<Rightarrow> scan_pyarrow_dataset env dataset))
        \<and> (\<forall>la vc'. get_load_path env (self\<lparr>load_args := la\<rparr>) (world st) = (Inr p, vc') \<longrightarrow>
               fst (PolarsDataset_load env (self\<lparr>load_args := la\<rparr>) st) =
               fst (PolarsDataset_load env self st)))"
  unfolding PolarsDataset_load_def by (auto split: sum.splits)

theorem load_dispatch_witness:
  "get_load_path demo_env demo_dataset (world saved_state) = (Inr ''data/test.csv'', [])
   \<and> protocol demo_dataset = ''file''
   \<and> pl_getattr demo_env (''scan_'' @ file_format demo_dataset) \<noteq> None
   \<and> PolarsDataset_load demo_env demo_dataset saved_state =
       (Inr ''a;b'', demo_dataset, saved_state)
   \<and> get_load_path demo_env remote_dataset (world saved_state) = (Inr ''bucket/test.csv'', [])
   \<and> protocol remote_dataset \<noteq> ''file''
   \<and> PolarsDataset_load demo_env remote_dataset saved_state =
       (Inr ''c,d'', remote_dataset, saved_state)
   \<and> fst (PolarsDataset_load demo_env (remote_dataset\<lparr>load_args := Map.empty\<rparr>) saved_state) =
       Inr ''c,d''"
proof -
  have h1: "get_load_path demo_env demo_dataset (world saved_state) = (Inr ''data/test.csv'', [])"
    by (simp add: demo_env_def demo_load_path_def demo_dataset_def)
  have h2: "get_load_path demo_env remote_dataset (world saved_state) =
              (Inr ''bucket/test.csv'', [])"
    by (simp add: demo_env_def demo_load_path_def demo_dataset_def remote_dataset_def)
  have h3: "get_load_path demo_env (remote_dataset\<lparr>load_args := Map.empty\<rparr>) (world saved_state) =
              (Inr ''bucket/test.csv'', [])"
    by (simp add: demo_env_def demo_load_path_def demo_dataset_def remote_dataset_def)
  have p: "protocol demo_dataset = ''file''" "protocol remote_dataset = ''s3''"
          "fs remote_dataset = ''s3''" "file_format demo_dataset = ''csv''"
          "set_cache demo_dataset [] = demo_dataset" "set_cache remote_dataset [] = remote_dataset"
    by (simp_all add: demo_dataset_def remote_dataset_def set_cache_def)
  have e: "pl_getattr demo_env ''scan_csv'' = Some (\<lambda>p kw w. demo_read w p)"
          "fsspec_filesystem demo_env ''s3'' Map.empty = Inr ''s3''"
          "ds_dataset demo_env = (\<lambda>p h fmt w. demo_read w p)"
          "scan_pyarrow_dataset demo_env = Inr"
    by (simp_all add: demo_env_def fun_eq_iff)
  have r: "demo_read (world saved_state) ''data/test.csv'' = Inr ''a;b''"
          "demo_read (world saved_state) ''bucket/test.csv'' = Inr ''c,d''"
    by (simp_all add: demo_read_def saved_state_def)
  show ?thesis
    using load_dispatch [OF h1] load_dispatch [OF h2] h1 h2 h3
    by (simp add: p e r prod_eq_iff)
qed

section \<open>The configuration is fixed\<close>

text \<open>
  C9. After any sequence of load, save, existence-check and release operations, whatever
  each of them returned, the file format, protocol, filepath, version descriptor, load
  options, save options and storage options of the instance (and its filesystem handle and
  metadata) are what they were before; only the version cache of the base class changes.
  The options that construction stores are the supplied ones with the key
  \<open>storage_options\<close> removed and nothing else changed.
\<close>

theorem configuration_fixed:
  "file_format (fst (run_ops env xs (self, st))) = file_format self
   \<and> protocol (fst (run_ops env xs (self, st))) = protocol self
   \<and> filepath (fst (run_ops env xs (self, st))) = filepath self
   \<and> version (fst (run_ops env xs (self, st))) = version self
   \<and> load_args (fst (run_ops env xs (self, st))) = load_args self
   \<and> save_args (fst (run_ops env xs (self, st))) = save_args self
   \<and> storage_options (fst (run_ops env xs (self, st))) = storage_options self
   \<and> fs (fst (run_ops env xs (self, st))) = fs self
   \<and> metadata (fst (run_ops env xs (self, st))) = metadata self
   \<and> (PolarsDataset_init env args st0 = (Inr new, st1) \<longrightarrow>
        load_args new = (or_empty (load_args_arg args))(''storage_options'' := None)
        \<and> save_args new = (or_empty (save_args_arg args))(''storage_options'' := None))"
proof -
  obtain vc where "fst (run_ops env xs (self, st)) = set_cache self vc"
    using run_ops_keeps [of env xs self st] by auto
  then show ?thesis
    using init_args_result [of env args st0 new st1] by (simp add: set_cache_def)
qed

theorem configuration_fixed_witness:
  "file_format (fst (run_ops demo_env [Save (DataFrame ''a,b''), Exists, Load, Release]
                  (demo_dataset, demo_state))) = ''csv''
   \<and> filepath (fst (run_ops demo_env [Save (DataFrame ''a,b''), Exists, Load, Release]
                  (demo_dataset, demo_state))) = ''data/test.csv''
   \<and> load_args (fst (run_ops demo_env [Save (DataFrame ''a,b''), Exists, Load, Release]
                  (demo_dataset, demo_state))) = load_args demo_dataset
   \<and> PolarsDataset_init demo_env demo_args demo_state =
       (Inr demo_dataset, emit (Warned (storage_options_warning ''data/test.csv'')) demo_state)
   \<and> load_args demo_dataset = (or_empty (load_args_arg demo_args))(''storage_options'' := None)"
proof -
  have f: "file_format demo_dataset = ''csv''" "filepath demo_dataset = ''data/test.csv''"
    by (simp_all add: demo_dataset_def)
  show ?thesis
    using configuration_fixed [of demo_env "[Save (DataFrame ''a,b''), Exists, Load, Release]"
            demo_dataset demo_state demo_args demo_state demo_dataset
            "emit (Warned (storage_options_warning ''data/test.csv'')) demo_state"]
          init_demo
    by (simp add: f)
qed

section \<open>The dynamic lookups\<close>

text \<open>
  C10. Let the dataframe engine offer the routines \<^verbatim>\<open>scan_csv\<close> and
  \<^verbatim>\<open>scan_parquet\<close>, and every dataframe the methods \<^verbatim>\<open>write_csv\<close> and
  \<^verbatim>\<open>write_parquet\<close>, and take an instance that construction returned, as it is after
  any sequence of operations. Then neither lookup misses, and load and save take the
  branch of the routine that was found. A load on the protocol \<open>file\<close> that has resolved
  its path returns what the routine \<^verbatim>\<open>scan_<format>\<close> returns on that path and the load
  options, never the error of calling a missing routine. A save that has passed both
  guards and has a materialised dataframe finds the method \<^verbatim>\<open>write_<format>\<close> on it and
  is the serialisation and the write with that method: the branch that reports a missing
  write method is not taken.
\<close>

theorem lookups_never_miss:
  assumes "PolarsDataset_init env args st0 = (Inr new, st1)"
    and "self = fst (run_ops env xs (new, st2))"
    and "pl_getattr env ''scan_csv'' \<noteq> None"
    and "pl_getattr env ''scan_parquet'' \<noteq> None"
    and "\<forall>df. df_getattr env df ''write_csv'' \<noteq> None"
    and "\<forall>df. df_getattr env df ''write_parquet'' \<noteq> None"
  shows "pl_getattr env (''scan_'' @ file_format self) \<noteq> None
         \<and> (\<forall>df. df_getattr env df (''write_'' @ file_format self) \<noteq> None)
         \<and> (get_load_path env self (world stl) = (Inr lp, lvc) \<longrightarrow>
              protocol self = ''file'' \<longrightarrow>
              (\<exists>load_method.
                 pl_getattr env (''scan_'' @ file_format self) = Some load_method
                 \<and> fst (PolarsDataset_load env self stl) =
                     load_method lp (load_args self) (world stl)))
         \<and> (get_save_path env self (world sts) = (Inr sp, svc) \<longrightarrow>
              Path_is_dir env (world sts) (get_filepath_str env sp (protocol self)) =
                Inr False \<longrightarrow>
              save_args self ''partition_cols'' = None \<longrightarrow>
              collect_data env data sts = (Inr df, sts1) \<longrightarrow>
              (\<exists>save_method.
                 df_getattr env df (''write_'' @ file_format self) = Some save_method
                 \<and> PolarsDataset_save env self data sts =
                     (fst (write_data env (set_cache self svc)
                             (get_filepath_str env sp (protocol self)) save_method sts1),
                      set_cache self svc,
                      snd (write_data env (set_cache self svc)
                             (get_filepath_str env sp (protocol self)) save_method sts1))))"
proof -
  obtain vc where "self = set_cache new vc"
    using run_ops_keeps [of env xs new st2] assms(2) by auto
  then have "file_format self = file_format new"
    by (simp add: set_cache_def)
  with init_format [OF assms(1)]
  have f: "file_format self = ''csv'' \<or> file_format self = ''parquet''"
    by simp
  with assms(3,4) obtain load_method where
    l: "pl_getattr env (''scan_'' @ file_format self) = Some load_method"
    by auto
  have a: "pl_getattr env (''scan_'' @ file_format self) \<noteq> None"
    using l by simp
  have b: "\<forall>df. df_getattr env df (''write_'' @ file_format self) \<noteq> None"
    using f assms(5,6) by auto
  then have "\<exists>m. df_getattr env df (''write_'' @ file_format self) = Some m"
    by auto
  then obtain save_method where
    s: "df_getattr env df (''write_'' @ file_format self) = Some save_method"
    by blast
  have c: "get_load_path env self (world stl) = (Inr lp, lvc) \<longrightarrow>
           protocol self = ''file'' \<longrightarrow>
           (\<exists>load_method.
              pl_getattr env (''scan_'' @ file_format self) = Some load_method
              \<and> fst (PolarsDataset_load env self stl) =
                  load_method lp (load_args self) (world stl))"
    using l unfolding PolarsDataset_load_def by simp
  have d: "get_save_path env self (world sts) = (Inr sp, svc) \<longrightarrow>
           Path_is_dir env (world sts) (get_filepath_str env sp (protocol self)) =
             Inr False \<longrightarrow>
           save_args self ''partition_cols'' = None \<longrightarrow>
           collect_data env data sts = (Inr df, sts1) \<longrightarrow>
           (\<exists>save_method.
              df_getattr env df (''write_'' @ file_format self) = Some save_method
              \<and> PolarsDataset_save env self data sts =
                  (fst (write_data env (set_cache self svc)
                          (get_filepath_str env sp (protocol self)) save_method sts1),
                   set_cache self svc,
                   snd (write_data env (set_cache self svc)
                          (get_filepath_str env sp (protocol self)) save_method sts1)))"
    using s unfolding PolarsDataset_save_def Let_def
    by (simp add: split_beta)
  from a b c d show ?thesis by blast
qed

theorem lookups_never_miss_witness:
  "PolarsDataset_init demo_env demo_args demo_state =
     (Inr demo_dataset, emit (Warned (storage_options_warning ''data/test.csv'')) demo_state)
   \<and> demo_dataset = fst (run_ops demo_env [] (demo_dataset, demo_state))
   \<and> pl_getattr demo_env ''scan_csv'' \<noteq> None
   \<and> pl_getattr demo_env ''scan_parquet'' \<noteq> None
   \<and> (\<forall>df. df_getattr demo_env df ''write_csv'' \<noteq> None)
   \<and> (\<forall>df. df_getattr demo_env df ''write_parquet'' \<noteq> None)
   \<and> get_load_path demo_env demo_dataset (world saved_state) = (Inr ''data/test.csv'', [])
   \<and> protocol demo_dataset = ''file''
   \<and> fst (PolarsDataset_load demo_env demo_dataset saved_state) = Inr ''a;b''
   \<and> get_save_path demo_env demo_dataset (world demo_state) = (Inr ''data/test.csv'', [])
   \<and> Path_is_dir demo_env (world demo_state)
        (get_filepath_str demo_env ''data/test.csv'' (protocol demo_dataset)) = Inr False
   \<and> save_args demo_dataset ''partition_cols'' = None
   \<and> collect_data demo_env (DataFrame ''a,b'') demo_state = (Inr ''a,b'', demo_state)
   \<and> PolarsDataset_save demo_env demo_dataset (DataFrame ''a,b'') demo_state =
       (None, demo_dataset, after_save)
   \<and> write_data demo_env demo_dataset ''data/test.csv'' (\<lambda>kw. Inr ''a,b'') demo_state =
       (None, after_save)"
proof -
  have i: "demo_dataset = fst (run_ops demo_env [] (demo_dataset, demo_state))"
    by simp
  have a: "pl_getattr demo_env ''scan_csv'' \<noteq> None" "pl_getattr demo_env ''scan_parquet'' \<noteq> None"
    by (simp_all add: demo_env_def)
  have b: "\<forall>df. df_getattr demo_env df ''write_csv'' \<noteq> None"
          "\<forall>df. df_getattr demo_env df ''write_parquet'' \<noteq> None"
    by (simp_all add: demo_env_def)
  have h1: "get_load_path demo_env demo_dataset (world saved_state) = (Inr ''data/test.csv'', [])"
    by (simp add: demo_env_def demo_load_path_def demo_dataset_def)
  have h2: "get_save_path demo_env demo_dataset (world demo_state) = (Inr ''data/test.csv'', [])"
    by (simp add: demo_env_def demo_save_path_def demo_dataset_def)
  have h3: "Path_is_dir demo_env (world demo_state)
              (get_filepath_str demo_env ''data/test.csv'' (protocol demo_dataset)) = Inr False"
    by (simp add: demo_env_def demo_state_def demo_dataset_def demo_is_dir_def short_names)
  have h4: "save_args demo_dataset ''partition_cols'' = None"
    by (simp add: demo_dataset_def)
  have h5: "collect_data demo_env (DataFrame ''a,b'') demo_state = (Inr ''a,b'', demo_state)"
    by (simp add: collect_data_def)
  have p: "protocol demo_dataset = ''file''" "file_format demo_dataset = ''csv''"
          "set_cache demo_dataset [] = demo_dataset"
          "get_filepath_str demo_env ''data/test.csv'' ''file'' = ''data/test.csv''"
    by (simp_all add: demo_dataset_def set_cache_def demo_env_def)
  have e: "pl_getattr demo_env ''scan_csv'' = Some (\<lambda>p kw w. demo_read w p)"
          "df_getattr demo_env ''a,b'' ''write_csv'' = Some (\<lambda>kw. Inr ''a,b'')"
    by (simp_all add: demo_env_def)
  have r: "demo_read (world saved_state) ''data/test.csv'' = Inr ''a;b''"
    by (simp add: demo_read_def saved_state_def)
  have w: "write_data demo_env demo_dataset ''data/test.csv'' (\<lambda>kw. Inr ''a,b'') demo_state =
             (None, after_save)"
    by (simp add: write_data_def write_buffer_def close_file_def
        PolarsDataset_invalidate_cache_def emit_def Let_def demo_dataset_def demo_env_def
        demo_state_def after_save_def)
  show ?thesis
    using lookups_never_miss [OF init_demo i a b, of saved_state "''data/test.csv''" "[]"
            demo_state "''data/test.csv''" "[]" "DataFrame ''a,b''" "''a,b''" demo_state]
          init_demo i a b h1 h2 h3 h4 h5 w
    by (simp add: p e r)
qed

end
